theory Spec2Isabelle
  imports Complex_Main "HOL-Library.Char_ord" "HOL-Library.List_Lexorder"
    "HOL-Library.Product_Lexorder"
begin

section \<open>The startup dashboard script \<^verbatim>\<open>EDA.py\<close>\<close>

text \<open>
  The script loads one CSV file into a dataframe, derives a few columns and tables with
  pandas calls and hands them to plotly figures. The embedding follows the script top to
  bottom. A dataframe is a list of rows in file order, a row is a record of the columns
  the script reads, a missing cell (NaN, NaT) is \<open>None\<close>. The pandas calls the script
  makes (\<^verbatim>\<open>value_counts\<close>, \<^verbatim>\<open>merge\<close>, \<^verbatim>\<open>fillna\<close>, \<^verbatim>\<open>isin\<close>, \<^verbatim>\<open>groupby\<close>,
  \<^verbatim>\<open>quantile\<close>, \<^verbatim>\<open>nlargest\<close>) are library code; each is a small list function here that
  follows the library's documented behaviour for the default arguments the script uses.

  Numbers: counts are natural numbers, day differences are integers, and float64 columns
  are rationals, so a float operation of the script is the exact operation here; the
  rounding of float64 is outside the model. NaN in a float result is \<open>None\<close>.
\<close>

subsection \<open>Data model\<close>

text \<open>
  A parsed date is a \<^verbatim>\<open>datetime64[ns]\<close> value: nanoseconds since the epoch. \<open>None\<close> is
  NaT, which \<^verbatim>\<open>pd.to_datetime(..., errors='coerce')\<close> gives for a cell that is empty or
  does not parse.
\<close>

type_synonym timestamp = int

record csv_row =
  name :: "string option"
  status :: "string option"
  category :: "string option"
  country_code :: "string option"
  funding_rounds :: "rat option"
  funding_total_usd :: "rat option"
  founded_at :: "timestamp option"
  first_funding_at :: "timestamp option"
  last_funding_at :: "timestamp option"

text \<open>A row of the dataframe \<^verbatim>\<open>load_data\<close> returns: the file's columns and the two derived ones.\<close>

record df_row = csv_row +
  founded_year :: "int option"
  lifespan_days :: "int option"

text \<open>
  \<^verbatim>\<open>(a - b).dt.days\<close>: the difference of two date columns is a timedelta, NaT where
  either side is NaT; \<^verbatim>\<open>.dt.days\<close> is its whole number of days, rounded towards minus
  infinity (a timedelta of minus one hour has \<^verbatim>\<open>days == -1\<close>).
\<close>

definition ns_per_day :: int where
  "ns_per_day = 86400000000000"

definition sub_dt :: "timestamp option \<Rightarrow> timestamp option \<Rightarrow> int option" where
  "sub_dt a b = (case (a, b) of (Some x, Some y) \<Rightarrow> Some (x - y) | _ \<Rightarrow> None)"

definition dt_days :: "int option \<Rightarrow> int option" where
  "dt_days d = map_option (\<lambda>ns. ns div ns_per_day) d"

subsection \<open>Loading: \<^verbatim>\<open>load_data\<close>\<close>

text \<open>
  The exceptions the body of the \<^verbatim>\<open>try\<close> can raise. \<^verbatim>\<open>FileNotFoundError\<close> is the one the
  script names; \<open>OtherError\<close> stands for every other exception class (a parser error, a
  permission error, a missing column), with its message.
\<close>

datatype exn = FileNotFoundError | ValueError | OtherError string

text \<open>
  What \<^verbatim>\<open>pd.read_csv\<close> followed by the three \<^verbatim>\<open>pd.to_datetime\<close> calls gives: an exception,
  or the rows of the file with the date columns parsed.
\<close>

type_synonym read_result = "exn + csv_row list"

text \<open>
  \<^verbatim>\<open>.dt.year\<close>: the calendar year of a timestamp in the proleptic Gregorian calendar,
  computed from the day number by the usual era arithmetic (400-year eras of 146097 days
  that start on 1 March).
\<close>

definition dt_year :: "timestamp \<Rightarrow> int" where
  "dt_year ts =
     (let z = ts div ns_per_day + 719468;
          era = z div 146097;
          doe = z mod 146097;
          yoe = (doe - doe div 1460 + doe div 36524 - doe div 146096) div 365;
          doy = doe - (365 * yoe + yoe div 4 - yoe div 100);
          mp = (5 * doy + 2) div 153
      in yoe + era * 400 + (if mp < 10 then 0 else 1))"

definition add_derived :: "csv_row \<Rightarrow> df_row" where
  "add_derived r =
     csv_row.extend r
       (df_row.fields (map_option dt_year (founded_at r))
          (dt_days (sub_dt (last_funding_at r) (founded_at r))))"

text \<open>
  The result of the call \<^verbatim>\<open>load_data()\<close>: \<open>Inl e\<close> when the exception \<open>e\<close> leaves the
  function, \<open>Inr None\<close> for the \<^verbatim>\<open>return None\<close> of the handler, \<open>Inr (Some df)\<close> for
  \<^verbatim>\<open>return df\<close>.
\<close>

definition load_data :: "read_result \<Rightarrow> exn + df_row list option" where
  "load_data rd =
     (case rd of
        Inr rows \<Rightarrow> Inr (Some (map add_derived rows))
      | Inl FileNotFoundError \<Rightarrow> Inr None
      | Inl e \<Rightarrow> Inl e)"

subsection \<open>The pandas calls on a column\<close>

text \<open>\<^verbatim>\<open>dropna\<close>: the cells of a column that are present, in order.\<close>

definition dropna :: "'a option list \<Rightarrow> 'a list" where
  "dropna col = concat (map (\<lambda>c. case c of None \<Rightarrow> [] | Some v \<Rightarrow> [v]) col)"

text \<open>\<^verbatim>\<open>unique\<close>: the distinct values in order of first appearance.\<close>

definition unique :: "'a list \<Rightarrow> 'a list" where
  "unique vs = rev (remdups (rev vs))"

text \<open>
  \<^verbatim>\<open>Series.value_counts()\<close> with its defaults (\<^verbatim>\<open>dropna=True\<close>, \<^verbatim>\<open>sort=True\<close>,
  \<^verbatim>\<open>ascending=False\<close>): one entry per distinct present value with the number of its
  occurrences, largest count first; values of equal count stay in order of first
  appearance. \<^verbatim>\<open>.reset_index()\<close> turns the result into a two-column table, which is the
  list of pairs itself.
\<close>

definition value_counts :: "'a option list \<Rightarrow> ('a \<times> nat) list" where
  "value_counts col =
     (let vs = dropna col
      in sort_key (\<lambda>(k, n). - int n) (map (\<lambda>k. (k, count_list vs k)) (unique vs)))"

text \<open>
  \<^verbatim>\<open>pd.merge(left, right, on=key, how='left')\<close> for two-column tables: every left row, in
  order, once for each right row with the same key, and once with a missing right value
  when no right row has the key.
\<close>

definition merge_left :: "('k \<times> 'a) list \<Rightarrow> ('k \<times> 'b) list \<Rightarrow> ('k \<times> 'a \<times> 'b option) list" where
  "merge_left l r =
     concat (map (\<lambda>(k, a).
       (case filter (\<lambda>(k', b). k' = k) r of
          [] \<Rightarrow> [(k, a, None)]
        | ms \<Rightarrow> map (\<lambda>(k', b). (k, a, Some b)) ms)) l)"

text \<open>\<^verbatim>\<open>fillna(0)\<close> on the merged count column, which is a float column.\<close>

definition fillna0 :: "nat option \<Rightarrow> rat" where
  "fillna0 c = (case c of None \<Rightarrow> 0 | Some n \<Rightarrow> of_nat n)"

subsection \<open>Tab 4: survival rates\<close>

record survival_row =
  Category :: string
  Total_Startups :: nat
  Operating_Count :: rat
  Survival_Rate :: rat

definition category_totals :: "df_row list \<Rightarrow> (string \<times> nat) list" where
  "category_totals df = value_counts (map category df)"

definition operating_counts :: "df_row list \<Rightarrow> (string \<times> nat) list" where
  "operating_counts df =
     value_counts (map category (filter (\<lambda>r. status r = Some ''operating'') df))"

definition survival_df :: "df_row list \<Rightarrow> survival_row list" where
  "survival_df df =
     map (\<lambda>(c, t, oc).
            \<lparr>Category = c, Total_Startups = t, Operating_Count = fillna0 oc,
             Survival_Rate = (fillna0 oc / of_nat t) * 100\<rparr>)
         (merge_left (category_totals df) (operating_counts df))"

text \<open>The number of rows of a dataframe that satisfy a condition.\<close>

definition n_rows :: "('r \<Rightarrow> bool) \<Rightarrow> 'r list \<Rightarrow> nat" where
  "n_rows p df = length (filter p df)"

subsection \<open>More pandas calls\<close>

text \<open>\<^verbatim>\<open>Series.isin(values)\<close> on one cell: a missing cell is in no list of strings.\<close>

definition isin :: "'a option \<Rightarrow> 'a list \<Rightarrow> bool" where
  "isin c vs = (case c of None \<Rightarrow> False | Some v \<Rightarrow> v \<in> set vs)"

text \<open>
  A comparison of a numeric cell with a number: False on a missing cell, as every
  comparison with NaN is.
\<close>

definition cell_ge :: "int option \<Rightarrow> int \<Rightarrow> bool" where
  "cell_ge c n = (case c of None \<Rightarrow> False | Some v \<Rightarrow> n \<le> v)"

definition cell_gt :: "int option \<Rightarrow> int \<Rightarrow> bool" where
  "cell_gt c n = (case c of None \<Rightarrow> False | Some v \<Rightarrow> n < v)"

text \<open>
  \<^verbatim>\<open>Series.nlargest(n)\<close> on a table of counts (\<^verbatim>\<open>keep='first'\<close>): the \<open>n\<close> rows of
  largest count, largest first, rows of equal count in their order in the table.
\<close>

definition nlargest :: "nat \<Rightarrow> ('a \<times> nat) list \<Rightarrow> ('a \<times> nat) list" where
  "nlargest n tab = take n (sort_key (\<lambda>(k, c). - int c) tab)"

text \<open>\<^verbatim>\<open>.index\<close> of such a table: its keys.\<close>

definition index :: "('a \<times> 'b) list \<Rightarrow> 'a list" where
  "index tab = map fst tab"

text \<open>
  \<^verbatim>\<open>df.groupby(key)[val]\<close> with the defaults (\<^verbatim>\<open>sort=True\<close>, \<^verbatim>\<open>dropna=True\<close>): one group
  per distinct present key, keys ascending, each with the \<open>val\<close> cells of its rows in
  row order. Rows whose key is missing are in no group.
\<close>

definition groupby :: "('r \<Rightarrow> 'k::linorder option) \<Rightarrow> ('r \<Rightarrow> 'v) \<Rightarrow> 'r list \<Rightarrow> ('k \<times> 'v list) list" where
  "groupby key val df =
     map (\<lambda>k. (k, map val (filter (\<lambda>r. key r = Some k) df)))
       (sort (remdups (dropna (map key df))))"

text \<open>
  The quantile of pandas and numpy with \<^verbatim>\<open>interpolation='linear'\<close>, on the present values
  \<open>vs\<close> of a column: with the values sorted and \<open>h = (n - 1) * q\<close>, the value at position
  \<open>\<lfloor>h\<rfloor>\<close> plus the fraction \<open>h - \<lfloor>h\<rfloor>\<close> of the step to the next value. The script calls
  it with \<open>q\<close> in \<open>{0.25, 0.75, 0.95}\<close> only.
\<close>

definition lin_quantile :: "rat \<Rightarrow> rat list \<Rightarrow> rat" where
  "lin_quantile q vs =
     (let s = sort vs;
          h = of_nat (length s - 1) * q;
          lo = nat \<lfloor>h\<rfloor>;
          hi = min (lo + 1) (length s - 1)
      in s ! lo + (s ! hi - s ! lo) * (h - of_nat lo))"

text \<open>\<^verbatim>\<open>Series.quantile(q)\<close>: missing cells are skipped; NaN when no value is present.\<close>

definition quantile :: "rat \<Rightarrow> rat option list \<Rightarrow> rat option" where
  "quantile q col = (let vs = dropna col in if vs = [] then None else Some (lin_quantile q vs))"

text \<open>
  A series indexed by group key (the result of a groupby aggregation) and the arithmetic
  on two series of the same index; NaN on either side gives NaN.
\<close>

type_synonym 'k series = "('k \<times> rat option) list"

definition series_binop :: "(rat \<Rightarrow> rat \<Rightarrow> rat) \<Rightarrow> 'k series \<Rightarrow> 'k series \<Rightarrow> 'k series" where
  "series_binop f a b =
     map (\<lambda>((k, x), (k', y)).
            (k, case (x, y) of (Some u, Some v) \<Rightarrow> Some (f u v) | _ \<Rightarrow> None))
         (zip a b)"

definition series_scale :: "rat \<Rightarrow> 'k series \<Rightarrow> 'k series" where
  "series_scale c a = map (\<lambda>(k, x). (k, map_option (\<lambda>u. c * u) x)) a"

text \<open>\<^verbatim>\<open>Series.max()\<close>: the largest present value; NaN for a series without one.\<close>

definition series_max :: "'k series \<Rightarrow> rat option" where
  "series_max a = (case dropna (map snd a) of [] \<Rightarrow> None | v # vs \<Rightarrow> Some (fold max vs v))"

text \<open>\<^verbatim>\<open>.mean()\<close> of a group: the mean of the present cells; NaN when none is present.\<close>

definition series_mean :: "rat option list \<Rightarrow> rat option" where
  "series_mean col =
     (let vs = dropna col in if vs = [] then None else Some (sum_list vs / of_nat (length vs)))"

subsection \<open>Univariate tables, location and time trend\<close>

definition status_counts :: "df_row list \<Rightarrow> (string \<times> nat) list" where
  "status_counts df = value_counts (map status df)"

definition top_cats :: "df_row list \<Rightarrow> (string \<times> nat) list" where
  "top_cats df = nlargest 15 (value_counts (map category df))"

definition top_countries_list :: "df_row list \<Rightarrow> string list" where
  "top_countries_list df = index (nlargest 10 (value_counts (map country_code df)))"

definition df_top_countries :: "df_row list \<Rightarrow> df_row list" where
  "df_top_countries df = filter (\<lambda>r. isin (country_code r) (top_countries_list df)) df"

definition funding_trend :: "df_row list \<Rightarrow> (int \<times> rat option) list" where
  "funding_trend df =
     filter (\<lambda>(y, m). 1990 \<le> y \<and> y \<le> 2023)
       (map (\<lambda>(y, vs). (y, series_mean vs)) (groupby founded_year funding_total_usd df))"

text \<open>
  The thirty largest categories, by rising survival rate. \<^verbatim>\<open>sort_values\<close> does not fix
  the order of rows of equal rate; here they keep their order.
\<close>

definition top_30_categories :: "df_row list \<Rightarrow> survival_row list" where
  "top_30_categories df =
     sort_key Survival_Rate
       (take 30 (sort_key (\<lambda>r. - int (Total_Startups r)) (survival_df df)))"

subsection \<open>Tab 5: speed to funding\<close>

record timing_row = df_row +
  days_to_first_funding :: "int option"

definition target_statuses :: "string list" where
  "target_statuses = [''operating'', ''acquired'', ''ipo'', ''closed'']"

definition add_days_to_first_funding :: "df_row \<Rightarrow> timing_row" where
  "add_days_to_first_funding r =
     df_row.extend r
       (timing_row.fields (dt_days (sub_dt (first_funding_at r) (founded_at r))))"

definition df_timing :: "df_row list \<Rightarrow> timing_row list" where
  "df_timing df =
     filter (\<lambda>r. cell_ge (days_to_first_funding r) 0)
       (map add_days_to_first_funding (filter (\<lambda>r. isin (status r) target_statuses) df))"

subsection \<open>Tabs 6 and 7: lifespan\<close>

record life_row = df_row +
  lifespan_years :: "rat option"

definition add_lifespan_years :: "df_row \<Rightarrow> life_row" where
  "add_lifespan_years r =
     df_row.extend r
       (life_row.fields (map_option (\<lambda>d. of_int d / 365) (lifespan_days r)))"

definition df_life :: "df_row list \<Rightarrow> life_row list" where
  "df_life df = map add_lifespan_years (filter (\<lambda>r. cell_gt (lifespan_days r) 0) df)"

text \<open>
  The zoomed view of the box plot: the quartiles of \<^verbatim>\<open>lifespan_years\<close> per status, the
  upper fence of each status, the largest fence, and one year of margin.
\<close>

definition upper_fences :: "df_row list \<Rightarrow> string series" where
  "upper_fences df =
     (let grouped = groupby status lifespan_years (df_life df);
          Q1 = map (\<lambda>(k, vs). (k, quantile (1/4) vs)) grouped;
          Q3 = map (\<lambda>(k, vs). (k, quantile (3/4) vs)) grouped;
          IQR = series_binop (-) Q3 Q1
      in series_binop (+) Q3 (series_scale (3/2) IQR))"

definition zoom_limit :: "df_row list \<Rightarrow> rat option" where
  "zoom_limit df = map_option (\<lambda>max_limit. max_limit + 1) (series_max (upper_fences df))"

subsection \<open>Multivariate tab 1: the heatmap\<close>

definition top_countries :: "df_row list \<Rightarrow> string list" where
  "top_countries df = index (nlargest 10 (value_counts (map country_code df)))"

definition top_categories :: "df_row list \<Rightarrow> string list" where
  "top_categories df = index (nlargest 10 (value_counts (map category df)))"

definition df_heatmap :: "df_row list \<Rightarrow> df_row list" where
  "df_heatmap df =
     filter (\<lambda>r. isin (country_code r) (top_countries df) \<and> isin (category r) (top_categories df)) df"

text \<open>
  \<^verbatim>\<open>groupby(['country_code', 'category']).size()\<close>: the number of rows of every pair
  of a country code and a category that occurs; a row with either cell missing is in no
  group.
\<close>

definition cell_key :: "df_row \<Rightarrow> (string \<times> string) option" where
  "cell_key r =
     (case (country_code r, category r) of (Some c, Some g) \<Rightarrow> Some (c, g) | _ \<Rightarrow> None)"

definition counts :: "df_row list \<Rightarrow> ((string \<times> string) \<times> nat) list" where
  "counts df = map (\<lambda>(k, rs). (k, length rs)) (groupby cell_key id (df_heatmap df))"

definition z_max :: "df_row list \<Rightarrow> rat option" where
  "z_max df = quantile (95/100) (map (\<lambda>(k, n). Some (of_nat n)) (counts df))"

subsection \<open>Multivariate tabs 2 and 3\<close>

definition top_15_cats :: "df_row list \<Rightarrow> string list" where
  "top_15_cats df = index (nlargest 15 (value_counts (map category df)))"

definition df_sunburst :: "df_row list \<Rightarrow> df_row list" where
  "df_sunburst df = filter (\<lambda>r. isin (category r) (top_15_cats df)) df"

definition target_industries :: "string list" where
  "target_industries =
     [''Technology'', ''Health & Biotechnology'', ''E-Commerce & Retail'', ''Media & Entertainment'']"

definition df_facet :: "df_row list \<Rightarrow> df_row list" where
  "df_facet df = filter (\<lambda>r. isin (category r) target_industries) df"

subsection \<open>Figures\<close>

text \<open>
  A plotly figure as far as the script determines it: the variable it is bound to, the
  table it is built from, and the axis and colour-range settings the script passes or
  updates (\<^verbatim>\<open>log_y=True\<close> is the y-axis type \<^verbatim>\<open>log\<close>). A setting the script leaves to plotly
  is \<open>None\<close>. Titles, labels, colours and sizes are left out.
\<close>

datatype frame =
    Rows "df_row list"
  | Counts "(string \<times> nat) list"
  | Trend "(int \<times> rat option) list"
  | Survival "survival_row list"
  | Timing "timing_row list"
  | Life "life_row list"

record figure =
  fig_var :: string
  fig_data :: frame
  yaxis_type :: "string option"
  yaxis_autorange :: "bool option"
  yaxis_range :: "(rat option \<times> rat option) option"
  xaxis_range :: "(rat \<times> rat) option"
  range_color :: "(rat option \<times> rat option) option"

definition px :: "string \<Rightarrow> frame \<Rightarrow> bool \<Rightarrow> figure" where
  "px var data log_y =
     \<lparr>fig_var = var, fig_data = data,
      yaxis_type = (if log_y then Some ''log'' else None),
      yaxis_autorange = None, yaxis_range = None, xaxis_range = None, range_color = None\<rparr>"

definition fig_status :: "df_row list \<Rightarrow> figure" where
  "fig_status df = px ''fig_status'' (Counts (status_counts df)) False"

definition fig_rounds :: "df_row list \<Rightarrow> figure" where
  "fig_rounds df = px ''fig_rounds'' (Rows df) False"

definition fig_cat :: "df_row list \<Rightarrow> figure" where
  "fig_cat df = px ''fig_cat'' (Counts (top_cats df)) False"

definition fig_fund :: "df_row list \<Rightarrow> figure" where
  "fig_fund df = px ''fig_fund'' (Rows df) True"

definition fig_box :: "df_row list \<Rightarrow> figure" where
  "fig_box df = px ''fig_box'' (Rows df) True"

definition fig_country :: "df_row list \<Rightarrow> figure" where
  "fig_country df = px ''fig_country'' (Rows (df_top_countries df)) False"

definition fig_line :: "df_row list \<Rightarrow> figure" where
  "fig_line df = px ''fig_line'' (Trend (funding_trend df)) False"

definition fig_survival :: "df_row list \<Rightarrow> figure" where
  "fig_survival df =
     (px ''fig_survival'' (Survival (top_30_categories df)) False)\<lparr>xaxis_range := Some (0, 110)\<rparr>"

definition fig_timing :: "df_row list \<Rightarrow> figure" where
  "fig_timing df = (px ''fig_timing'' (Timing (df_timing df)) False)\<lparr>yaxis_type := Some ''log''\<rparr>"

definition fig_lifespan :: "df_row list \<Rightarrow> bool \<Rightarrow> figure" where
  "fig_lifespan df show_outliers =
     (let fig = px ''fig_lifespan'' (Life (df_life df)) False
      in if show_outliers then fig\<lparr>yaxis_autorange := Some True\<rparr>
         else fig\<lparr>yaxis_type := Some ''linear'', yaxis_range := Some (Some 0, zoom_limit df)\<rparr>)"

definition fig_money_time :: "df_row list \<Rightarrow> figure" where
  "fig_money_time df = px ''fig_money_time'' (Life (df_life df)) True"

definition fig_heatmap :: "df_row list \<Rightarrow> figure" where
  "fig_heatmap df =
     (px ''fig_heatmap'' (Rows (df_heatmap df)) False)\<lparr>range_color := Some (Some 0, z_max df)\<rparr>"

definition fig_sun :: "df_row list \<Rightarrow> figure" where
  "fig_sun df = px ''fig_sun'' (Rows (df_sunburst df)) False"

definition fig_facet :: "df_row list \<Rightarrow> figure" where
  "fig_facet df = px ''fig_facet'' (Rows (df_facet df)) True"

definition fig_scatter :: "df_row list \<Rightarrow> figure" where
  "fig_scatter df = px ''fig_scatter'' (Rows df) True"

subsection \<open>The script\<close>

text \<open>
  One execution of the script, which streamlit repeats on every interaction: its input is
  what reading the file gives and the state of the two checkboxes, its result the
  sequence of things shown and how the execution ends. Of the streamlit calls, the error
  box, the data preview and the charts are events; headings and captions are not.
  The caching of \<^verbatim>\<open>load_data\<close> by \<^verbatim>\<open>st.cache_data\<close> is not modelled.
  The calls into plotly and streamlit are taken to return.

  After the heatmap is shown, its caption formats \<^verbatim>\<open>int(z_max)\<close>, which raises
  \<^verbatim>\<open>ValueError\<close> when \<^verbatim>\<open>z_max\<close> is NaN (no row is left for the heatmap); nothing catches
  it, and the charts after it are not reached.
\<close>

datatype ui = StError string | StDataframe "df_row list" | PlotlyChart figure

datatype outcome = Completed | Stopped | Raised exn

record run =
  events :: "ui list"
  outcome :: outcome

definition not_found_message :: string where
  "not_found_message =
     ''File '' @ [CHR 0x27] @ ''processed_startups_data.csv'' @ [CHR 0x27] @
     '' not found! Please place the file in the same directory as this script.''"

definition charts_before_caption :: "df_row list \<Rightarrow> bool \<Rightarrow> figure list" where
  "charts_before_caption df show_outliers =
     [fig_status df, fig_rounds df, fig_cat df, fig_fund df, fig_box df, fig_country df,
      fig_line df, fig_survival df, fig_timing df, fig_lifespan df show_outliers,
      fig_money_time df, fig_heatmap df]"

definition charts_after_caption :: "df_row list \<Rightarrow> figure list" where
  "charts_after_caption df = [fig_sun df, fig_facet df, fig_scatter df]"

definition script :: "read_result \<Rightarrow> bool \<Rightarrow> bool \<Rightarrow> run" where
  "script rd show_raw show_outliers =
     (case load_data rd of
        Inl e \<Rightarrow> \<lparr>events = [], outcome = Raised e\<rparr>
      | Inr None \<Rightarrow> \<lparr>events = [StError not_found_message], outcome = Stopped\<rparr>
      | Inr (Some df) \<Rightarrow>
          (let shown = (if show_raw then [StDataframe (take 5 df)] else []) @
                 map PlotlyChart (charts_before_caption df show_outliers)
           in case z_max df of
                None \<Rightarrow> \<lparr>events = shown, outcome = Raised ValueError\<rparr>
              | Some z \<Rightarrow>
                  \<lparr>events = shown @ map PlotlyChart (charts_after_caption df),
                   outcome = Completed\<rparr>))"

text \<open>The figures an execution shows, in order.\<close>

definition charts :: "run \<Rightarrow> figure list" where
  "charts r = concat (map (\<lambda>e. case e of PlotlyChart f \<Rightarrow> [f] | _ \<Rightarrow> []) (events r))"

text \<open>
  A figure with the y-axis settings of the lifespan box plot blanked: two executions whose
  figures agree after this differ in nothing but those settings.
\<close>

definition without_lifespan_yaxis :: "figure \<Rightarrow> figure" where
  "without_lifespan_yaxis f =
     (if fig_var f = ''fig_lifespan''
      then f\<lparr>yaxis_type := None, yaxis_autorange := None, yaxis_range := None\<rparr>
      else f)"

subsection \<open>The zoomed range, as described\<close>

text \<open>
  The quantities the description of the zoomed box plot speaks of, written from the rows
  of the dataframe: the statuses that have a startup of positive lifespan, the lifespans in
  years within one status, and the upper fence \<open>Q3 + 1.5 * (Q3 - Q1)\<close> of one status.
\<close>

definition status_groups :: "df_row list \<Rightarrow> string set" where
  "status_groups df =
     set (concat (map (\<lambda>r. case (status r, lifespan_days r) of
                              (Some s, Some d) \<Rightarrow> if 0 < d then [s] else []
                            | _ \<Rightarrow> []) df))"

definition group_lifespan_years :: "df_row list \<Rightarrow> string \<Rightarrow> rat list" where
  "group_lifespan_years df s =
     concat (map (\<lambda>r. case lifespan_days r of
                         Some d \<Rightarrow> if status r = Some s \<and> 0 < d then [of_int d / 365] else []
                       | None \<Rightarrow> []) df)"

definition group_upper_fence :: "df_row list \<Rightarrow> string \<Rightarrow> rat" where
  "group_upper_fence df s =
     (let ys = group_lifespan_years df s;
          Q1 = lin_quantile (1/4) ys;
          Q3 = lin_quantile (3/4) ys
      in Q3 + 3/2 * (Q3 - Q1))"

subsection \<open>The heatmap, as described\<close>

text \<open>
  What it means for a list of keys to be the \<open>n\<close> most frequent values of a column: the
  keys are distinct values of the column, as many as there are up to \<open>n\<close>, and no value
  left out occurs more often than a key. The cells of the heatmap are the pairs of a
  country code and a category that occur in its rows; the count of a cell is the number
  of its rows.
\<close>

definition most_frequent :: "nat \<Rightarrow> 'a option list \<Rightarrow> 'a list \<Rightarrow> bool" where
  "most_frequent n col keys \<longleftrightarrow>
     distinct keys \<and>
     length keys = min n (card (set col - {None})) \<and>
     (\<forall>v \<in> set keys. Some v \<in> set col \<and>
        (\<forall>w \<in> set col - {None} - Some ` set keys. count_list col w \<le> count_list col (Some v)))"

definition heatmap_cells :: "df_row list \<Rightarrow> (string \<times> string) list" where
  "heatmap_cells df =
     sorted_list_of_set
       (set (concat (map (\<lambda>r. case (country_code r, category r) of
                                 (Some c, Some g) \<Rightarrow> [(c, g)] | _ \<Rightarrow> [])
                         (df_heatmap df))))"

definition cell_count :: "df_row list \<Rightarrow> string \<times> string \<Rightarrow> rat" where
  "cell_count df cell =
     of_nat (n_rows (\<lambda>r. country_code r = Some (fst cell) \<and> category r = Some (snd cell))
               (df_heatmap df))"

subsection \<open>A small dataframe\<close>

text \<open>
  Six startups, with dates given as day numbers: a category without an operating startup,
  a row without dates, a row without status and category, a lifespan of zero days and a
  first funding before the founding date.
\<close>

definition example_row ::
  "string \<Rightarrow> string option \<Rightarrow> string option \<Rightarrow> string option \<Rightarrow>
   int option \<Rightarrow> int option \<Rightarrow> int option \<Rightarrow> csv_row" where
  "example_row n s c cc f ff lf =
     \<lparr>name = Some n, status = s, category = c, country_code = cc,
      funding_rounds = Some 1, funding_total_usd = Some 1000,
      founded_at = map_option (\<lambda>d. d * ns_per_day) f,
      first_funding_at = map_option (\<lambda>d. d * ns_per_day) ff,
      last_funding_at = map_option (\<lambda>d. d * ns_per_day) lf\<rparr>"

definition example_csv :: "csv_row list" where
  "example_csv =
     [example_row ''A'' (Some ''operating'') (Some ''Tech'') (Some ''USA'') (Some 0) (Some 100) (Some 730),
      example_row ''B'' (Some ''closed'') (Some ''Tech'') (Some ''USA'') (Some 365) (Some 365) (Some 365),
      example_row ''C'' (Some ''operating'') (Some ''Health'') (Some ''GBR'') (Some 1000) (Some 900) (Some 2825),
      example_row ''D'' (Some ''acquired'') (Some ''Health'') None None (Some 5) (Some 6),
      example_row ''E'' (Some ''closed'') (Some ''Games'') (Some ''USA'') (Some 0) (Some 10) (Some 1460),
      example_row ''F'' None None (Some ''USA'') (Some 10957) (Some 10958) (Some 11017)]"

definition example_df :: "df_row list" where
  "example_df = map add_derived example_csv"


text \<open>
  Twenty-two startups in eleven countries, one of them with a single startup, so that
  taking the ten most frequent countries leaves one out.
\<close>

definition example_wide :: "df_row list" where
  "example_wide =
     map (\<lambda>c. add_derived (example_row c (Some ''operating'') (Some ''Tech'') (Some c) None None None))
       [''AT'', ''BE'', ''CH'', ''DE'', ''ES'', ''FR'', ''GB'', ''HU'', ''IT'', ''JP'', ''KR'',
        ''AT'', ''BE'', ''CH'', ''DE'', ''ES'', ''FR'', ''GB'', ''HU'', ''IT'', ''KR'', ''KR'']"

section \<open>Properties\<close>

subsection \<open>Counting and merging\<close>

lemma count_list_dropna:
  "count_list (dropna (map f df)) k = n_rows (\<lambda>r. f r = Some k) df"
  by (induction df) (auto simp: dropna_def n_rows_def split: option.splits)

lemma set_dropna: "set (dropna col) = {v. Some v \<in> set col}"
  by (induction col) (auto simp: dropna_def split: option.splits)

lemma set_unique: "set (unique vs) = set vs"
  by (simp add: unique_def)

lemma distinct_unique: "distinct (unique vs)"
  by (simp add: unique_def)

lemma filter_eq_distinct:
  "distinct xs \<Longrightarrow> filter (\<lambda>y. y = k) xs = (if k \<in> set xs then [k] else [])"
  by (induction xs) auto

lemma value_counts_key:
  "filter (\<lambda>(k', n). k' = k) (value_counts col) =
     (if Some k \<in> set col then [(k, count_list (dropna col) k)] else [])"
proof -
  let ?vs = "dropna col"
  have "filter (\<lambda>(k', n). k' = k) (map (\<lambda>k. (k, count_list ?vs k)) (unique ?vs)) =
        map (\<lambda>k. (k, count_list ?vs k)) (filter (\<lambda>y. y = k) (unique ?vs))"
    by (simp add: filter_map comp_def)
  then show ?thesis
    by (simp add: value_counts_def Let_def filter_sort filter_eq_distinct distinct_unique
        set_unique set_dropna)
qed

lemma filter_key_matches:
  "filter (\<lambda>(k, a, b). k = c) (map (\<lambda>(k', b). (k, a, Some b)) ms) =
     (if k = c then map (\<lambda>(k', b). (k, a, Some b)) ms else [])"
  by (induction ms) auto

lemma merge_left_Cons: "merge_left (x # l) r = merge_left [x] r @ merge_left l r"
  by (simp add: merge_left_def)

lemma merge_left_single_key:
  "filter (\<lambda>(k, a, b). k = c) (merge_left [(k, a)] r) = (if k = c then merge_left [(k, a)] r else [])"
  by (simp add: merge_left_def filter_key_matches split: list.splits)

lemma merge_left_key:
  "filter (\<lambda>(k, a, b). k = c) (merge_left l r) = merge_left (filter (\<lambda>(k, a). k = c) l) r"
proof (induction l)
  case Nil
  show ?case by (simp add: merge_left_def)
next
  case (Cons x l)
  obtain k a where x: "x = (k, a)" by (cases x)
  have "filter (\<lambda>(k, a, b). k = c) (merge_left (x # l) r) =
        (if k = c then merge_left [(k, a)] r else []) @ merge_left (filter (\<lambda>(k, a). k = c) l) r"
    unfolding x merge_left_Cons [of "(k, a)" l] filter_append merge_left_single_key Cons.IH ..
  also have "\<dots> = merge_left (filter (\<lambda>(k, a). k = c) (x # l)) r"
  proof (cases "k = c")
    case True
    then show ?thesis by (simp add: x merge_left_Cons [of "(c, a)", symmetric])
  next
    case False
    then show ?thesis by (simp add: x)
  qed
  finally show ?case .
qed

lemma survival_df_key:
  "filter (\<lambda>r. Category r = c) (survival_df df) =
     map (\<lambda>(c, t, oc).
            \<lparr>Category = c, Total_Startups = t, Operating_Count = fillna0 oc,
             Survival_Rate = (fillna0 oc / of_nat t) * 100\<rparr>)
       (merge_left (filter (\<lambda>(k, a). k = c) (category_totals df)) (operating_counts df))"
proof -
  have "filter (\<lambda>r. Category r = c) (survival_df df) =
     map (\<lambda>(c, t, oc).
            \<lparr>Category = c, Total_Startups = t, Operating_Count = fillna0 oc,
             Survival_Rate = (fillna0 oc / of_nat t) * 100\<rparr>)
       (filter (\<lambda>(k, a, b). k = c) (merge_left (category_totals df) (operating_counts df)))"
    unfolding survival_df_def filter_map
    by (rule arg_cong [where f = "map _"], rule filter_cong) auto
  then show ?thesis by (simp only: merge_left_key)
qed

lemma survival_row_of_category:
  assumes "Some c \<in> set (map category df)"
  shows "filter (\<lambda>r. Category r = c) (survival_df df) =
    [\<lparr>Category = c,
      Total_Startups = n_rows (\<lambda>r. category r = Some c) df,
      Operating_Count = of_nat (n_rows (\<lambda>r. category r = Some c \<and> status r = Some ''operating'') df),
      Survival_Rate = 100 * of_nat (n_rows (\<lambda>r. category r = Some c \<and> status r = Some ''operating'') df)
                         / of_nat (n_rows (\<lambda>r. category r = Some c) df)\<rparr>]"
proof -
  let ?op = "filter (\<lambda>r. status r = Some ''operating'') df"
  have tot: "filter (\<lambda>(k, a). k = c) (category_totals df) = [(c, n_rows (\<lambda>r. category r = Some c) df)]"
    using assms by (simp add: category_totals_def value_counts_key count_list_dropna)
  have nop: "n_rows (\<lambda>r. category r = Some c) ?op =
             n_rows (\<lambda>r. category r = Some c \<and> status r = Some ''operating'') df"
    by (simp add: n_rows_def conj_commute)
  have opc: "filter (\<lambda>(k, a). k = c) (operating_counts df) =
     (if Some c \<in> set (map category ?op) then [(c, n_rows (\<lambda>r. category r = Some c) ?op)] else [])"
    by (simp add: operating_counts_def value_counts_key count_list_dropna)
  show ?thesis
  proof (cases "Some c \<in> set (map category ?op)")
    case True
    with opc tot show ?thesis
      by (simp add: survival_df_key merge_left_def fillna0_def nop)
  next
    case False
    then have "filter (\<lambda>r. category r = Some c) ?op = []"
      by (force simp: filter_empty_conv)
    then have z: "n_rows (\<lambda>r. category r = Some c) ?op = 0"
      by (simp add: n_rows_def)
    from False opc tot show ?thesis
      using z unfolding nop [symmetric]
      by (simp add: survival_df_key merge_left_def fillna0_def)
  qed
qed

lemma merge_left_single_keys:
  "(c, t, oc) \<in> set (merge_left [(k, a)] r) \<Longrightarrow> c = k \<and> t = a"
  by (cases "filter (\<lambda>(k', b). k' = k) r") (auto simp: merge_left_def)

lemma merge_left_keys: "(c, t, oc) \<in> set (merge_left l r) \<Longrightarrow> (c, t) \<in> set l"
proof (induction l)
  case Nil
  then show ?case by (simp add: merge_left_def)
next
  case (Cons x l)
  obtain k a where x: "x = (k, a)" by (cases x)
  from Cons.prems have "(c, t, oc) \<in> set (merge_left [(k, a)] r) \<or> (c, t, oc) \<in> set (merge_left l r)"
    unfolding x merge_left_Cons [of "(k, a)" l] by simp
  then show ?case
  proof
    assume "(c, t, oc) \<in> set (merge_left [(k, a)] r)"
    then have "c = k \<and> t = a" by (rule merge_left_single_keys)
    then show ?thesis by (simp add: x)
  next
    assume "(c, t, oc) \<in> set (merge_left l r)"
    then show ?thesis using Cons.IH by simp
  qed
qed

lemma value_counts_keys: "(k, n) \<in> set (value_counts col) \<Longrightarrow> Some k \<in> set col"
  by (auto simp: value_counts_def Let_def set_unique set_dropna)

lemma survival_df_category_occurs:
  assumes "r \<in> set (survival_df df)"
  shows "Some (Category r) \<in> set (map category df)"
proof -
  from assms obtain c t oc where m: "(c, t, oc) \<in> set (merge_left (category_totals df) (operating_counts df))"
    and r: "Category r = c"
    by (auto simp: survival_df_def)
  from m have "(c, t) \<in> set (category_totals df)" by (rule merge_left_keys)
  then show ?thesis unfolding r category_totals_def by (rule value_counts_keys)
qed

lemma survival_row_eq:
  assumes "r \<in> set (survival_df df)"
  shows "r = \<lparr>Category = Category r,
      Total_Startups = n_rows (\<lambda>x. category x = Some (Category r)) df,
      Operating_Count = of_nat (n_rows (\<lambda>x. category x = Some (Category r) \<and> status x = Some ''operating'') df),
      Survival_Rate = 100 * of_nat (n_rows (\<lambda>x. category x = Some (Category r) \<and> status x = Some ''operating'') df)
                         / of_nat (n_rows (\<lambda>x. category x = Some (Category r)) df)\<rparr>"
proof -
  from assms have "r \<in> set (filter (\<lambda>x. Category x = Category r) (survival_df df))" by simp
  then show ?thesis
    unfolding survival_row_of_category [OF survival_df_category_occurs [OF assms]] by simp
qed

lemma n_rows_pos: "Some c \<in> set (map f df) \<Longrightarrow> 1 \<le> n_rows (\<lambda>x. f x = Some c) df"
proof -
  assume "Some c \<in> set (map f df)"
  then have "filter (\<lambda>x. f x = Some c) df \<noteq> []"
    by (force simp: filter_empty_conv)
  then show ?thesis by (cases "filter (\<lambda>x. f x = Some c) df") (simp_all add: n_rows_def)
qed

lemma n_rows_conj_le: "n_rows (\<lambda>x. p x \<and> q x) df \<le> n_rows p df"
  by (induction df) (auto simp: n_rows_def)

text \<open>
  Claim C1. For a category \<open>c\<close> that occurs in the category column, \<^verbatim>\<open>survival_df\<close> has
  exactly one row for \<open>c\<close>; its \<^verbatim>\<open>Total_Startups\<close> is the number of rows of category \<open>c\<close>,
  its \<^verbatim>\<open>Operating_Count\<close> the number of those whose status is \<^verbatim>\<open>operating\<close> (0 when there
  is none, through the missing value of the left merge and \<^verbatim>\<open>fillna\<close>), and its
  \<^verbatim>\<open>Survival_Rate\<close> is 100 times the second number divided by the first.
\<close>

theorem survival_rate_per_category:
  assumes "Some c \<in> set (map category df)"
  shows "filter (\<lambda>r. Category r = c) (survival_df df) =
    [\<lparr>Category = c,
      Total_Startups = n_rows (\<lambda>r. category r = Some c) df,
      Operating_Count = of_nat (n_rows (\<lambda>r. category r = Some c \<and> status r = Some ''operating'') df),
      Survival_Rate = 100 * of_nat (n_rows (\<lambda>r. category r = Some c \<and> status r = Some ''operating'') df)
                         / of_nat (n_rows (\<lambda>r. category r = Some c) df)\<rparr>]"
  using assms by (rule survival_row_of_category)

text \<open>
  Claim C4. Every row of \<^verbatim>\<open>survival_df\<close> has a survival rate between 0 and 100, because
  its count of operating rows is at most its total count.
\<close>

theorem survival_rate_is_percentage:
  assumes "r \<in> set (survival_df df)"
  shows "0 \<le> Survival_Rate r \<and> Survival_Rate r \<le> 100 \<and>
         0 \<le> Operating_Count r \<and> Operating_Count r \<le> of_nat (Total_Startups r)"
proof -
  let ?n = "n_rows (\<lambda>x. category x = Some (Category r)) df"
  let ?k = "n_rows (\<lambda>x. category x = Some (Category r) \<and> status x = Some ''operating'') df"
  have n: "1 \<le> ?n" using survival_df_category_occurs [OF assms] by (rule n_rows_pos)
  have k: "?k \<le> ?n" by (rule n_rows_conj_le)
  have rate: "Survival_Rate r = 100 * of_nat ?k / of_nat ?n"
    and oc: "Operating_Count r = of_nat ?k" and tot: "Total_Startups r = ?n"
    by (subst survival_row_eq [OF assms], simp)+
  from n have pos: "(0::rat) < of_nat ?n" by simp
  from k have "(of_nat ?k :: rat) \<le> of_nat ?n" by (simp only: of_nat_le_iff)
  then have "100 * (of_nat ?k :: rat) \<le> 100 * of_nat ?n" by simp
  with pos have "100 * (of_nat ?k :: rat) / of_nat ?n \<le> 100"
    by (simp add: pos_divide_le_eq)
  moreover have "(0::rat) \<le> 100 * of_nat ?k / of_nat ?n" by simp
  ultimately show ?thesis using k unfolding rate oc tot by simp
qed

text \<open>
  Claim C7. Every row of \<^verbatim>\<open>survival_df\<close> is an entry of \<^verbatim>\<open>value_counts\<close> of the category
  column; its \<^verbatim>\<open>Total_Startups\<close> is the number of rows of its category, which is at least 1,
  so the divisor of the survival rate is not zero.
\<close>

theorem survival_division_defined:
  assumes "r \<in> set (survival_df df)"
  shows "(Category r, Total_Startups r) \<in> set (value_counts (map category df)) \<and>
         Total_Startups r = n_rows (\<lambda>x. category x = Some (Category r)) df \<and>
         1 \<le> Total_Startups r \<and> (of_nat (Total_Startups r) :: rat) \<noteq> 0"
proof -
  let ?n = "n_rows (\<lambda>x. category x = Some (Category r)) df"
  have n: "1 \<le> ?n" using survival_df_category_occurs [OF assms] by (rule n_rows_pos)
  have tot: "Total_Startups r = ?n"
    by (subst survival_row_eq [OF assms], simp)
  from assms obtain c t oc where m: "(c, t, oc) \<in> set (merge_left (category_totals df) (operating_counts df))"
    and r: "Category r = c" "Total_Startups r = t"
    by (auto simp: survival_df_def)
  from m have "(c, t) \<in> set (category_totals df)" by (rule merge_left_keys)
  then have "(Category r, Total_Startups r) \<in> set (value_counts (map category df))"
    by (simp add: r category_totals_def)
  with n tot show ?thesis by simp
qed

theorem survival_rate_per_category_witness:
  "Some ''Games'' \<in> set (map category example_df) \<and>
   filter (\<lambda>r. Category r = ''Games'') (survival_df example_df) =
     [\<lparr>Category = ''Games'', Total_Startups = 1, Operating_Count = 0, Survival_Rate = 0\<rparr>] \<and>
   Some ''Tech'' \<in> set (map category example_df) \<and>
   filter (\<lambda>r. Category r = ''Tech'') (survival_df example_df) =
     [\<lparr>Category = ''Tech'', Total_Startups = 2, Operating_Count = 1, Survival_Rate = 50\<rparr>]"
proof -
  have g: "Some ''Games'' \<in> set (map category example_df)" by code_simp
  have t: "Some ''Tech'' \<in> set (map category example_df)" by code_simp
  have n1: "n_rows (\<lambda>r. category r = Some ''Games'') example_df = 1" by code_simp
  have n2: "n_rows (\<lambda>r. category r = Some ''Games'' \<and> status r = Some ''operating'') example_df = 0"
    by code_simp
  have n3: "n_rows (\<lambda>r. category r = Some ''Tech'') example_df = 2" by code_simp
  have n4: "n_rows (\<lambda>r. category r = Some ''Tech'' \<and> status r = Some ''operating'') example_df = 1"
    by code_simp
  show ?thesis
    using g t survival_rate_per_category [OF g] survival_rate_per_category [OF t]
    unfolding n1 n2 n3 n4 by simp
qed

theorem survival_rate_is_percentage_witness:
  "\<lparr>Category = ''Health'', Total_Startups = 2, Operating_Count = 1, Survival_Rate = 50\<rparr>
     \<in> set (survival_df example_df) \<and>
   (0::rat) \<le> 50 \<and> (50::rat) \<le> 100 \<and> (0::rat) \<le> 1 \<and> (1::rat) \<le> of_nat 2"
proof -
  have h: "\<lparr>Category = ''Health'', Total_Startups = 2, Operating_Count = 1, Survival_Rate = 50\<rparr>
     \<in> set (survival_df example_df)" by code_simp
  show ?thesis using h survival_rate_is_percentage [OF h] by simp
qed

theorem survival_division_defined_witness:
  "\<lparr>Category = ''Games'', Total_Startups = 1, Operating_Count = 0, Survival_Rate = 0\<rparr>
     \<in> set (survival_df example_df) \<and>
   (''Games'', 1) \<in> set (value_counts (map category example_df)) \<and>
   n_rows (\<lambda>x. category x = Some ''Games'') example_df = 1"
proof -
  have h: "\<lparr>Category = ''Games'', Total_Startups = 1, Operating_Count = 0, Survival_Rate = 0\<rparr>
     \<in> set (survival_df example_df)" by code_simp
  from survival_division_defined [OF h]
  have a: "(''Games'', 1) \<in> set (value_counts (map category example_df))"
    and b: "1 = n_rows (\<lambda>x. category x = Some ''Games'') example_df"
    by auto
  show ?thesis using h a b [symmetric] by simp
qed

subsection \<open>Speed to funding\<close>








lemma example_df_rows:
  "example_df =
     [add_derived (example_csv ! 0), add_derived (example_csv ! 1), add_derived (example_csv ! 2),
      add_derived (example_csv ! 3), add_derived (example_csv ! 4), add_derived (example_csv ! 5)]"
  by (simp add: example_df_def example_csv_def)


subsection \<open>Lifespan rows\<close>

lemma truncate_add_lifespan_years: "df_row.truncate (add_lifespan_years r) = r"
  by (simp add: add_lifespan_years_def df_row.defs csv_row.defs life_row.defs)

lemma cols_add_lifespan_years:
  "lifespan_days (add_lifespan_years r) = lifespan_days r"
  "status (add_lifespan_years r) = status r"
  "lifespan_years (add_lifespan_years r) = map_option (\<lambda>d. of_int d / 365) (lifespan_days r)"
  by (simp_all add: add_lifespan_years_def df_row.defs csv_row.defs life_row.defs)

lemma cell_gt_iff: "cell_gt c n \<longleftrightarrow> (\<exists>d. c = Some d \<and> n < d)"
  by (cases c) (simp_all add: cell_gt_def)

lemma lifespan_days_add_derived:
  "lifespan_days (add_derived r) =
     (case (last_funding_at r, founded_at r) of
        (Some a, Some b) \<Rightarrow> Some ((a - b) div ns_per_day) | _ \<Rightarrow> None)"
  by (simp add: add_derived_def df_row.defs csv_row.defs dt_days_def sub_dt_def
      split: option.splits)

lemma days_nonpositive: "a \<le> b \<Longrightarrow> (a - b) div ns_per_day \<le> 0"
proof -
  assume "a \<le> b"
  then have "\<not> ns_per_day \<le> a - b" by (simp add: ns_per_day_def)
  then have "\<not> 0 < (a - b) div ns_per_day"
    by (simp add: pos_imp_zdiv_pos_iff ns_per_day_def)
  then show ?thesis by simp
qed

text \<open>
  Claim C8. The box plot and the scatter plot of the lifespan are both built from
  \<^verbatim>\<open>df_life\<close>, whose rows, without the added column, are exactly the rows with
  \<^verbatim>\<open>lifespan_days\<close> strictly above 0. A startup of the file whose last funding date is
  missing, whose founding date is missing, or whose last funding is not after its
  founding is not among them.
\<close>

theorem lifespan_charts_rows:
  "fig_data (fig_lifespan df show_outliers) = Life (df_life df) \<and>
   fig_data (fig_money_time df) = Life (df_life df) \<and>
   map df_row.truncate (df_life df) = filter (\<lambda>r. \<exists>d. lifespan_days r = Some d \<and> 0 < d) df \<and>
   (\<forall>r \<in> set rows.
      last_funding_at r = None \<or> founded_at r = None \<or>
      (\<exists>a b. last_funding_at r = Some a \<and> founded_at r = Some b \<and> a \<le> b) \<longrightarrow>
      add_derived r \<notin> set (map df_row.truncate (df_life (map add_derived rows))))"
proof (intro conjI ballI impI)
  show "fig_data (fig_lifespan df show_outliers) = Life (df_life df)"
    by (simp add: fig_lifespan_def px_def Let_def)
  show "fig_data (fig_money_time df) = Life (df_life df)"
    by (simp add: fig_money_time_def px_def)
  show kept: "map df_row.truncate (df_life df) = filter (\<lambda>r. \<exists>d. lifespan_days r = Some d \<and> 0 < d) df"
    for df
    by (simp add: df_life_def comp_def truncate_add_lifespan_years cell_gt_iff)
  fix r
  assume "r \<in> set rows"
    and out: "last_funding_at r = None \<or> founded_at r = None \<or>
      (\<exists>a b. last_funding_at r = Some a \<and> founded_at r = Some b \<and> a \<le> b)"
  have "\<not> (\<exists>d. lifespan_days (add_derived r) = Some d \<and> 0 < d)"
    using out days_nonpositive
    by (fastforce simp: lifespan_days_add_derived split: option.splits)
  then show "add_derived r \<notin> set (map df_row.truncate (df_life (map add_derived rows)))"
    unfolding kept by simp
qed

theorem lifespan_charts_rows_witness:
  "fig_data (fig_lifespan example_df False) = Life (df_life example_df) \<and>
   fig_data (fig_money_time example_df) = Life (df_life example_df) \<and>
   map df_row.truncate (df_life example_df) =
     [example_df ! 0, example_df ! 2, example_df ! 4, example_df ! 5] \<and>
   example_csv ! 1 \<in> set example_csv \<and>
   last_funding_at (example_csv ! 1) = founded_at (example_csv ! 1) \<and>
   add_derived (example_csv ! 1) \<notin> set (map df_row.truncate (df_life example_df)) \<and>
   example_csv ! 3 \<in> set example_csv \<and>
   founded_at (example_csv ! 3) = None \<and>
   add_derived (example_csv ! 3) \<notin> set (map df_row.truncate (df_life example_df))"
proof -
  have kept: "filter (\<lambda>r. \<exists>d. lifespan_days r = Some d \<and> 0 < d) example_df =
     [example_df ! 0, example_df ! 2, example_df ! 4, example_df ! 5]"
    unfolding cell_gt_iff [of _ 0, symmetric] by code_simp
  have m1: "example_csv ! 1 \<in> set example_csv" and m3: "example_csv ! 3 \<in> set example_csv"
    by code_simp+
  have e1: "last_funding_at (example_csv ! 1) = Some (365 * ns_per_day)"
    "founded_at (example_csv ! 1) = Some (365 * ns_per_day)"
    by code_simp+
  have e3: "founded_at (example_csv ! 3) = None" by code_simp
  note inst = lifespan_charts_rows [of example_df False example_csv, folded example_df_def]
  from inst m1 e1 have "add_derived (example_csv ! 1) \<notin> set (map df_row.truncate (df_life example_df))"
    by blast
  moreover from inst m3 e3 have "add_derived (example_csv ! 3) \<notin> set (map df_row.truncate (df_life example_df))"
    by blast
  ultimately show ?thesis using inst kept m1 m3 e1 e3 by simp
qed

subsection \<open>The zoomed range of the lifespan box plot\<close>

lemma dropna_map_Some: "dropna (map (\<lambda>x. Some (f x)) xs) = map f xs"
  by (induction xs) (simp_all add: dropna_def)

lemma status_groups_iff:
  "s \<in> status_groups df \<longleftrightarrow>
     (\<exists>r \<in> set df. status r = Some s \<and> (\<exists>d. lifespan_days r = Some d \<and> 0 < d))"
  by (induction df) (auto simp: status_groups_def split: option.splits)

lemma status_groups_code:
  "status_groups df = set (dropna (map status (df_life df)))"
  by (induction df)
    (auto simp: status_groups_def dropna_def df_life_def cols_add_lifespan_years cell_gt_def
      split: option.splits)

lemma group_values:
  "dropna (map lifespan_years (filter (\<lambda>r. status r = Some s) (df_life df))) =
     group_lifespan_years df s"
  by (induction df)
    (auto simp: df_life_def group_lifespan_years_def dropna_def cols_add_lifespan_years
      cell_gt_def split: option.splits)

lemma group_values_nonempty:
  assumes "s \<in> status_groups df"
  shows "group_lifespan_years df s \<noteq> []"
proof -
  from assms obtain r d where "r \<in> set df" "status r = Some s" "lifespan_days r = Some d" "0 < d"
    by (auto simp: status_groups_iff)
  then show ?thesis
    by (force simp: group_lifespan_years_def)
qed

lemma fences_of_groups:
  "series_binop (+) (map (\<lambda>(k, vs). (k, f3 vs)) g)
     (series_scale c (series_binop (-) (map (\<lambda>(k, vs). (k, f3 vs)) g)
                                     (map (\<lambda>(k, vs). (k, f1 vs)) g))) =
   map (\<lambda>(k, vs). (k, case (f3 vs, f1 vs) of
                          (Some a, Some b) \<Rightarrow> Some (a + c * (a - b)) | _ \<Rightarrow> None)) g"
  by (induction g) (auto simp: series_binop_def series_scale_def split: option.splits)

lemma upper_fences_eq:
  "upper_fences df =
     map (\<lambda>k. (k, Some (group_upper_fence df k)))
       (sort (remdups (dropna (map status (df_life df)))))"
proof -
  have "(case (quantile (3/4) (map lifespan_years (filter (\<lambda>r. status r = Some k) (df_life df))),
               quantile (1/4) (map lifespan_years (filter (\<lambda>r. status r = Some k) (df_life df)))) of
          (Some a, Some b) \<Rightarrow> Some (a + 3/2 * (a - b)) | _ \<Rightarrow> None) =
        Some (group_upper_fence df k)"
    if "k \<in> set (sort (remdups (dropna (map status (df_life df)))))" for k
  proof -
    from that have "k \<in> status_groups df" by (simp add: status_groups_code)
    then have "group_lifespan_years df k \<noteq> []" by (rule group_values_nonempty)
    then show ?thesis
      by (simp add: quantile_def group_values group_upper_fence_def Let_def)
  qed
  then show ?thesis
    unfolding upper_fences_def Let_def fences_of_groups groupby_def
    by (simp add: comp_def)
qed

lemma series_max_Some:
  "series_max (map (\<lambda>k. (k, Some (f k))) ks) =
     (if ks = [] then None else Some (Max (f ` set ks)))"
proof (cases ks)
  case Nil
  then show ?thesis by (simp add: series_max_def dropna_def)
next
  case (Cons k ks')
  have "dropna (map snd (map (\<lambda>k. (k, Some (f k))) ks)) = map f ks"
    by (simp add: comp_def dropna_map_Some)
  then have "series_max (map (\<lambda>k. (k, Some (f k))) ks) = Some (fold max (map f ks') (f k))"
    by (simp add: series_max_def Cons)
  also have "fold max (map f ks') (f k) = Max (set (f k # map f ks'))"
    by (simp only: Max.set_eq_fold)
  finally show ?thesis by (simp add: Cons)
qed

lemma sorted_keys_Nil: "sort (remdups xs) = [] \<longleftrightarrow> xs = []"
proof -
  have "set (sort (remdups xs)) = set xs" by simp
  then show ?thesis by (metis set_empty)
qed

lemma zoom_limit_eq:
  "zoom_limit df =
     (if status_groups df = {} then None
      else Some (Max (group_upper_fence df ` status_groups df) + 1))"
  by (simp add: zoom_limit_def upper_fences_eq series_max_Some status_groups_code sorted_keys_Nil)

text \<open>
  Claim C2. With the checkbox unchecked, the y-axis of the lifespan box plot is linear and,
  when some status has a startup of positive lifespan, its range is \<open>[0, L + 1]\<close>, where
  \<open>L\<close> is the largest upper fence \<open>Q3 + 1.5 * (Q3 - Q1)\<close> over the statuses, the quartiles
  being the 0.25 and 0.75 quantiles of \<^verbatim>\<open>lifespan_days / 365\<close> within the status;
  \<^verbatim>\<open>lifespan_days\<close> is the day difference of \<^verbatim>\<open>last_funding_at\<close> and \<^verbatim>\<open>founded_at\<close>.
  (Without any such status the maximum is NaN, and so is the upper end of the range;
  see \<open>zoom_limit_eq\<close>.)
\<close>

theorem lifespan_zoom_range:
  "yaxis_type (fig_lifespan df False) = Some ''linear'' \<and>
   (status_groups df \<noteq> {} \<longrightarrow>
      yaxis_range (fig_lifespan df False) =
        Some (Some 0, Some (Max (group_upper_fence df ` status_groups df) + 1))) \<and>
   (\<forall>r. lifespan_days (add_derived r) =
      (case (last_funding_at r, founded_at r) of
         (Some a, Some b) \<Rightarrow> Some ((a - b) div ns_per_day) | _ \<Rightarrow> None))"
  by (simp add: fig_lifespan_def px_def Let_def zoom_limit_eq lifespan_days_add_derived)


theorem lifespan_zoom_range_witness:
  "status_groups example_df = {''closed'', ''operating''} \<and>
   group_upper_fence example_df ''closed'' = 4 \<and>
   group_upper_fence example_df ''operating'' = 13/2 \<and>
   yaxis_range (fig_lifespan example_df False) = Some (Some 0, Some (15/2))"
proof -
  have g: "status_groups example_df = {''closed'', ''operating''}"
    by code_simp
  have c: "group_upper_fence example_df ''closed'' = 4" by code_simp
  have p: "group_upper_fence example_df ''operating'' = 13/2" by code_simp
  from lifespan_zoom_range [of example_df]
  have "yaxis_range (fig_lifespan example_df False) = Some (Some 0, Some (15/2))"
    unfolding g by (simp add: c p)
  with g c p show ?thesis by simp
qed

subsection \<open>The heatmap\<close>

lemma isin_iff: "isin c vs \<longleftrightarrow> c \<in> Some ` set vs"
  by (cases c) (auto simp: isin_def)

lemma count_list_Some: "count_list col (Some v) = count_list (dropna col) v"
  by (induction col) (auto simp: dropna_def split: option.splits)

lemma set_minus_None: "set col - {None} = Some ` set (dropna col)"
proof -
  have "x \<in> set col - {None} \<longleftrightarrow> x \<in> Some ` set (dropna col)" for x
    by (cases x) (auto simp: set_dropna)
  then show ?thesis by blast
qed

lemma card_present: "card (set col - {None}) = card (set (dropna col))"
  unfolding set_minus_None by (rule card_image) simp

lemma length_unique: "length (unique vs) = card (set vs)"
  by (simp add: unique_def length_remdups_card_conv)

lemma distinct_keys_sort_key: "distinct (map fst (sort_key f xs)) = distinct (map fst xs)"
  by (simp add: distinct_map)

lemma value_counts_distinct: "distinct (map fst (value_counts col))"
  by (simp add: value_counts_def Let_def distinct_keys_sort_key comp_def distinct_unique)

lemma value_counts_length: "length (value_counts col) = card (set (dropna col))"
  by (simp add: value_counts_def Let_def length_unique)

lemma value_counts_set:
  "set (value_counts col) = (\<lambda>k. (k, count_list (dropna col) k)) ` set (dropna col)"
  by (simp add: value_counts_def Let_def set_unique)

lemma sorted_take_drop:
  assumes "sorted (map f l)" "x \<in> set (take n l)" "y \<in> set (drop n l)"
  shows "f x \<le> f y"
proof -
  have "sorted (map f (take n l) @ map f (drop n l))"
    using assms(1) by (simp only: map_append [symmetric] append_take_drop_id)
  then show ?thesis using assms(2,3) by (auto simp: sorted_append)
qed

lemma nlargest_most_frequent:
  "most_frequent n col (index (nlargest n (value_counts col)))"
proof -
  let ?f = "\<lambda>(k, c). - int c"
  let ?l = "sort_key ?f (value_counts col)"
  let ?top = "index (nlargest n (value_counts col))"
  have top_eq: "?top = take n (map fst ?l)"
    by (simp add: index_def nlargest_def take_map)
  have dl: "distinct (map fst ?l)"
    by (simp only: distinct_keys_sort_key value_counts_distinct)
  have sl: "set ?l = (\<lambda>k. (k, count_list (dropna col) k)) ` set (dropna col)"
    by (simp add: value_counts_set)
  have d: "distinct ?top" unfolding top_eq using dl by (rule distinct_take)
  have len: "length ?top = min n (card (set col - {None}))"
    by (simp add: top_eq value_counts_length card_present min.commute)
  have dom: "Some v \<in> set col \<and>
      (\<forall>w \<in> set col - {None} - Some ` set ?top. count_list col w \<le> count_list col (Some v))"
    if v: "v \<in> set ?top" for v
  proof
    from v obtain c where vc: "(v, c) \<in> set (take n ?l)"
      by (auto simp: index_def nlargest_def)
    then have "(v, c) \<in> set ?l" by (rule in_set_takeD)
    then have c: "c = count_list (dropna col) v" and vin: "v \<in> set (dropna col)"
      unfolding sl by auto
    from vin show "Some v \<in> set col" by (simp add: set_dropna)
    show "\<forall>w \<in> set col - {None} - Some ` set ?top. count_list col w \<le> count_list col (Some v)"
    proof
      fix w assume w: "w \<in> set col - {None} - Some ` set ?top"
      then obtain u where u: "w = Some u" "u \<in> set (dropna col)" "u \<notin> set ?top"
        by (cases w) (auto simp: set_dropna)
      let ?m = "count_list (dropna col) u"
      from u(2) have "(u, ?m) \<in> set ?l" unfolding sl by simp
      then have "(u, ?m) \<in> set (take n ?l) \<union> set (drop n ?l)"
        by (simp only: set_append [symmetric] append_take_drop_id)
      moreover have "(u, ?m) \<notin> set (take n ?l)"
        using u(3) by (force simp: index_def nlargest_def)
      ultimately have "(u, ?m) \<in> set (drop n ?l)" by simp
      with sorted_take_drop [of ?f ?l _ n, OF sorted_sort_key vc]
      have "?f (v, c) \<le> ?f (u, ?m)" by blast
      then show "count_list col w \<le> count_list col (Some v)"
        by (simp add: u(1) c count_list_Some)
    qed
  qed
  from d len dom show ?thesis unfolding most_frequent_def by blast
qed

lemma cell_key_iff:
  "cell_key r = Some k \<longleftrightarrow> country_code r = Some (fst k) \<and> category r = Some (snd k)"
  by (cases k) (auto simp: cell_key_def split: option.splits)

lemma cells_dropna:
  "concat (map (\<lambda>r. case (country_code r, category r) of
                      (Some c, Some g) \<Rightarrow> [(c, g)] | _ \<Rightarrow> []) rs) =
   dropna (map cell_key rs)"
  by (induction rs) (auto simp: dropna_def cell_key_def split: option.splits)

lemma heatmap_cells_eq:
  "heatmap_cells df = sort (remdups (dropna (map cell_key (df_heatmap df))))"
  unfolding heatmap_cells_def cells_dropna by (rule sorted_list_of_set_sort_remdups)

lemma counts_eq:
  "map (\<lambda>(k, n). Some (of_nat n :: rat)) (counts df) =
   map (\<lambda>k. Some (cell_count df k)) (heatmap_cells df)"
  by (simp add: counts_def groupby_def heatmap_cells_eq comp_def cell_count_def n_rows_def
      cell_key_iff)

lemma z_max_eq:
  "z_max df =
     (if heatmap_cells df = [] then None
      else Some (lin_quantile (95/100) (map (cell_count df) (heatmap_cells df))))"
  by (simp add: z_max_def counts_eq quantile_def dropna_map_Some)

text \<open>
  Claim C9. The heatmap is built from the rows whose country code is among the ten most
  frequent country codes and whose category is among the ten most frequent categories.
  Its colour range is \<open>[0, z_max]\<close>, where \<open>z_max\<close> is the 0.95 quantile of the counts of
  the cells that occur (NaN when no row is left). How plotly draws a count above the
  range is plotly's concern and not part of the statement.
\<close>

theorem heatmap_top10_and_cap:
  "most_frequent 10 (map country_code df) (top_countries df) \<and>
   most_frequent 10 (map category df) (top_categories df) \<and>
   df_heatmap df =
     filter (\<lambda>r. country_code r \<in> Some ` set (top_countries df) \<and>
                  category r \<in> Some ` set (top_categories df)) df \<and>
   fig_data (fig_heatmap df) = Rows (df_heatmap df) \<and>
   range_color (fig_heatmap df) = Some (Some 0, z_max df) \<and>
   z_max df =
     (if heatmap_cells df = [] then None
      else Some (lin_quantile (95/100) (map (cell_count df) (heatmap_cells df))))"
proof (intro conjI)
  show "most_frequent 10 (map country_code df) (top_countries df)"
    unfolding top_countries_def by (rule nlargest_most_frequent)
  show "most_frequent 10 (map category df) (top_categories df)"
    unfolding top_categories_def by (rule nlargest_most_frequent)
  show "df_heatmap df =
     filter (\<lambda>r. country_code r \<in> Some ` set (top_countries df) \<and>
                  category r \<in> Some ` set (top_categories df)) df"
    by (simp add: df_heatmap_def isin_iff)
  show "fig_data (fig_heatmap df) = Rows (df_heatmap df)"
    by (simp add: fig_heatmap_def px_def)
  show "range_color (fig_heatmap df) = Some (Some 0, z_max df)"
    by (simp add: fig_heatmap_def px_def)
  show "z_max df =
     (if heatmap_cells df = [] then None
      else Some (lin_quantile (95/100) (map (cell_count df) (heatmap_cells df))))"
    by (rule z_max_eq)
qed


theorem heatmap_top10_and_cap_witness:
  "top_countries example_wide =
     [''KR'', ''AT'', ''BE'', ''CH'', ''DE'', ''ES'', ''FR'', ''GB'', ''HU'', ''IT''] \<and>
   top_categories example_wide = [''Tech''] \<and>
   Some ''JP'' \<in> set (map country_code example_wide) \<and>
   most_frequent 10 (map country_code example_wide) (top_countries example_wide) \<and>
   length (df_heatmap example_wide) = 21 \<and>
   range_color (fig_heatmap example_wide) = Some (Some 0, Some (51/20))"
proof -
  have c: "top_countries example_wide =
     [''KR'', ''AT'', ''BE'', ''CH'', ''DE'', ''ES'', ''FR'', ''GB'', ''HU'', ''IT'']"
    by code_simp
  have g: "top_categories example_wide = [''Tech'']" by code_simp
  have n: "length (filter (\<lambda>r. country_code r \<in> Some ` set [''KR'', ''AT'', ''BE'', ''CH'', ''DE'', ''ES'', ''FR'', ''GB'', ''HU'', ''IT''] \<and>
                  category r \<in> Some ` set [''Tech'']) example_wide) = 21"
    by code_simp
  have jp: "Some ''JP'' \<in> set (map country_code example_wide)" by code_simp
  have cells: "heatmap_cells example_wide \<noteq> []" by code_simp
  have q: "lin_quantile (95/100) (map (cell_count example_wide) (heatmap_cells example_wide)) = 51/20"
    by code_simp
  from heatmap_top10_and_cap [of example_wide] c g n jp cells q show ?thesis by simp
qed

subsection \<open>The missing-file check\<close>

lemma charts_script_loaded:
  "charts (script (Inr rows) show_raw show_outliers) =
     charts_before_caption (map add_derived rows) show_outliers @
     (case z_max (map add_derived rows) of None \<Rightarrow> []
      | Some z \<Rightarrow> charts_after_caption (map add_derived rows))"
  by (simp add: script_def load_data_def charts_def Let_def comp_def split: option.splits)

lemma events_script_loaded:
  "StError m \<notin> set (events (script (Inr rows) show_raw show_outliers))"
  by (auto simp: script_def load_data_def Let_def split: option.splits)

lemma outcome_script_loaded:
  "outcome (script (Inr rows) show_raw show_outliers) =
     (case z_max (map add_derived rows) of None \<Rightarrow> Raised ValueError | Some z \<Rightarrow> Completed)"
  by (simp add: script_def load_data_def Let_def split: option.splits)

text \<open>
  Claim C3. The only exception the script handles is the missing file. When reading
  raises \<^verbatim>\<open>FileNotFoundError\<close>, \<^verbatim>\<open>load_data\<close> returns \<^verbatim>\<open>None\<close>, the script shows the error
  message and stops, and no chart is shown. Any other exception leaves \<^verbatim>\<open>load_data\<close> and
  the script uncaught. When the file is read, no error box is shown, the script does not
  stop, and the whole execution is determined: the optional preview, then the twelve
  figures from \<^verbatim>\<open>fig_status\<close> to \<^verbatim>\<open>fig_heatmap\<close> for any rows and checkboxes, then
  \<^verbatim>\<open>fig_sun\<close>, \<^verbatim>\<open>fig_facet\<close> and \<^verbatim>\<open>fig_scatter\<close> and a completed run. No condition
  guards any of them; the one way a run after a successful read ends early is again an
  exception nothing catches, the \<^verbatim>\<open>ValueError\<close> of the heatmap caption when the heatmap
  has no cell.
\<close>

theorem missing_file_is_the_only_handler:
  "load_data (Inl FileNotFoundError) = Inr None \<and>
   script (Inl FileNotFoundError) show_raw show_outliers =
     \<lparr>events = [StError not_found_message], outcome = Stopped\<rparr> \<and>
   charts (script (Inl FileNotFoundError) show_raw show_outliers) = [] \<and>
   (e \<noteq> FileNotFoundError \<longrightarrow>
      load_data (Inl e) = Inl e \<and>
      script (Inl e) show_raw show_outliers = \<lparr>events = [], outcome = Raised e\<rparr>) \<and>
   load_data (Inr rows) = Inr (Some (map add_derived rows)) \<and>
   (\<forall>m. StError m \<notin> set (events (script (Inr rows) show_raw show_outliers))) \<and>
   outcome (script (Inr rows) show_raw show_outliers) \<noteq> Stopped \<and>
   take 12 (charts (script (Inr rows) show_raw show_outliers)) =
     charts_before_caption (map add_derived rows) show_outliers \<and>
   script (Inr rows) show_raw show_outliers =
     (let df = map add_derived rows;
          preview = (if show_raw then [StDataframe (take 5 df)] else []);
          analyses =
            [fig_status df, fig_rounds df, fig_cat df, fig_fund df, fig_box df,
             fig_country df, fig_line df, fig_survival df, fig_timing df,
             fig_lifespan df show_outliers, fig_money_time df, fig_heatmap df];
          after_caption = [fig_sun df, fig_facet df, fig_scatter df]
      in if heatmap_cells df = []
         then \<lparr>events = preview @ map PlotlyChart analyses, outcome = Raised ValueError\<rparr>
         else \<lparr>events = preview @ map PlotlyChart (analyses @ after_caption),
               outcome = Completed\<rparr>) \<and>
   map fig_var (charts_before_caption (map add_derived rows) show_outliers) =
     [''fig_status'', ''fig_rounds'', ''fig_cat'', ''fig_fund'', ''fig_box'', ''fig_country'',
      ''fig_line'', ''fig_survival'', ''fig_timing'', ''fig_lifespan'', ''fig_money_time'',
      ''fig_heatmap''] \<and>
   map (\<lambda>f. (fig_var f, fig_data f))
       [fig_sun (map add_derived rows), fig_facet (map add_derived rows),
        fig_scatter (map add_derived rows)] =
     [(''fig_sun'', Rows (df_sunburst (map add_derived rows))),
      (''fig_facet'', Rows (df_facet (map add_derived rows))),
      (''fig_scatter'', Rows (map add_derived rows))]"
proof (intro conjI impI allI)
  show "load_data (Inl FileNotFoundError) = Inr None"
    by (simp add: load_data_def)
  show "script (Inl FileNotFoundError) show_raw show_outliers =
     \<lparr>events = [StError not_found_message], outcome = Stopped\<rparr>"
    by (simp add: script_def load_data_def)
  show "charts (script (Inl FileNotFoundError) show_raw show_outliers) = []"
    by (simp add: script_def load_data_def charts_def)
  show "load_data (Inl e) = Inl e" if "e \<noteq> FileNotFoundError"
    using that by (cases e) (simp_all add: load_data_def)
  show "script (Inl e) show_raw show_outliers = \<lparr>events = [], outcome = Raised e\<rparr>"
    if "e \<noteq> FileNotFoundError"
    using that by (cases e) (simp_all add: script_def load_data_def)
  show "load_data (Inr rows) = Inr (Some (map add_derived rows))"
    by (simp add: load_data_def)
  show "StError m \<notin> set (events (script (Inr rows) show_raw show_outliers))" for m
    by (rule events_script_loaded)
  show "outcome (script (Inr rows) show_raw show_outliers) \<noteq> Stopped"
    by (simp add: outcome_script_loaded split: option.splits)
  show "take 12 (charts (script (Inr rows) show_raw show_outliers)) =
     charts_before_caption (map add_derived rows) show_outliers"
    by (simp add: charts_script_loaded charts_before_caption_def)
  show "script (Inr rows) show_raw show_outliers =
     (let df = map add_derived rows;
          preview = (if show_raw then [StDataframe (take 5 df)] else []);
          analyses =
            [fig_status df, fig_rounds df, fig_cat df, fig_fund df, fig_box df,
             fig_country df, fig_line df, fig_survival df, fig_timing df,
             fig_lifespan df show_outliers, fig_money_time df, fig_heatmap df];
          after_caption = [fig_sun df, fig_facet df, fig_scatter df]
      in if heatmap_cells df = []
         then \<lparr>events = preview @ map PlotlyChart analyses, outcome = Raised ValueError\<rparr>
         else \<lparr>events = preview @ map PlotlyChart (analyses @ after_caption),
               outcome = Completed\<rparr>)"
  proof (cases "heatmap_cells (map add_derived rows) = []")
    case True
    then have "z_max (map add_derived rows) = None" by (simp add: z_max_eq)
    with True show ?thesis
      by (simp add: script_def load_data_def Let_def charts_before_caption_def)
  next
    case False
    then obtain z where "z_max (map add_derived rows) = Some z" by (simp add: z_max_eq)
    with False show ?thesis
      by (simp add: script_def load_data_def Let_def charts_before_caption_def
          charts_after_caption_def)
  qed
  show "map fig_var (charts_before_caption (map add_derived rows) show_outliers) =
     [''fig_status'', ''fig_rounds'', ''fig_cat'', ''fig_fund'', ''fig_box'', ''fig_country'',
      ''fig_line'', ''fig_survival'', ''fig_timing'', ''fig_lifespan'', ''fig_money_time'',
      ''fig_heatmap'']"
    by (simp add: charts_before_caption_def fig_status_def fig_rounds_def fig_cat_def
        fig_fund_def fig_box_def fig_country_def fig_line_def fig_survival_def fig_timing_def
        fig_lifespan_def fig_money_time_def fig_heatmap_def px_def Let_def)
  show "map (\<lambda>f. (fig_var f, fig_data f))
       [fig_sun (map add_derived rows), fig_facet (map add_derived rows),
        fig_scatter (map add_derived rows)] =
     [(''fig_sun'', Rows (df_sunburst (map add_derived rows))),
      (''fig_facet'', Rows (df_facet (map add_derived rows))),
      (''fig_scatter'', Rows (map add_derived rows))]"
    by (simp add: fig_sun_def fig_facet_def fig_scatter_def px_def)
qed

theorem missing_file_is_the_only_handler_witness:
  "OtherError ''ParserError'' \<noteq> FileNotFoundError \<and>
   load_data (Inl (OtherError ''ParserError'')) = Inl (OtherError ''ParserError'') \<and>
   script (Inl (OtherError ''ParserError'')) True False =
     \<lparr>events = [], outcome = Raised (OtherError ''ParserError'')\<rparr> \<and>
   script (Inl FileNotFoundError) True False =
     \<lparr>events = [StError not_found_message], outcome = Stopped\<rparr> \<and>
   map fig_var (take 12 (charts (script (Inr example_csv) True False))) =
     [''fig_status'', ''fig_rounds'', ''fig_cat'', ''fig_fund'', ''fig_box'', ''fig_country'',
      ''fig_line'', ''fig_survival'', ''fig_timing'', ''fig_lifespan'', ''fig_money_time'',
      ''fig_heatmap''] \<and>
   outcome (script (Inr example_csv) True False) = Completed \<and>
   outcome (script (Inr []) True False) = Raised ValueError \<and>
   map fig_var (charts (script (Inr example_csv) True False)) =
     [''fig_status'', ''fig_rounds'', ''fig_cat'', ''fig_fund'', ''fig_box'', ''fig_country'',
      ''fig_line'', ''fig_survival'', ''fig_timing'', ''fig_lifespan'', ''fig_money_time'',
      ''fig_heatmap'', ''fig_sun'', ''fig_facet'', ''fig_scatter''] \<and>
   length (events (script (Inr example_csv) True False)) = 16 \<and>
   map fig_var (charts (script (Inr []) True False)) =
     [''fig_status'', ''fig_rounds'', ''fig_cat'', ''fig_fund'', ''fig_box'', ''fig_country'',
      ''fig_line'', ''fig_survival'', ''fig_timing'', ''fig_lifespan'', ''fig_money_time'',
      ''fig_heatmap'']"
proof -
  have ne: "OtherError ''ParserError'' \<noteq> FileNotFoundError" by simp
  have c1: "heatmap_cells (map add_derived example_csv) \<noteq> []" by code_simp
  have c2: "heatmap_cells (map add_derived []) = []" by code_simp
  note full = missing_file_is_the_only_handler
    [of True False "OtherError ''ParserError''" example_csv]
  note none = missing_file_is_the_only_handler
    [of True False "OtherError ''ParserError''" "[]"]
  from full have s1: "script (Inr example_csv) True False =
      \<lparr>events = StDataframe (take 5 (map add_derived example_csv)) #
         map PlotlyChart (charts_before_caption (map add_derived example_csv) False @
           [fig_sun (map add_derived example_csv), fig_facet (map add_derived example_csv),
            fig_scatter (map add_derived example_csv)]),
       outcome = Completed\<rparr>"
    using c1 by (simp add: Let_def charts_before_caption_def)
  from none have s2: "script (Inr []) True False =
      \<lparr>events = StDataframe (take 5 (map add_derived [])) #
         map PlotlyChart (charts_before_caption (map add_derived []) False),
       outcome = Raised ValueError\<rparr>"
    using c2 by (simp add: Let_def charts_before_caption_def)
  have n1: "map fig_var (charts_before_caption (map add_derived example_csv) False) =
     [''fig_status'', ''fig_rounds'', ''fig_cat'', ''fig_fund'', ''fig_box'', ''fig_country'',
      ''fig_line'', ''fig_survival'', ''fig_timing'', ''fig_lifespan'', ''fig_money_time'',
      ''fig_heatmap'']"
    using full by blast
  have n2: "map fig_var (charts_before_caption (map add_derived []) False) =
     [''fig_status'', ''fig_rounds'', ''fig_cat'', ''fig_fund'', ''fig_box'', ''fig_country'',
      ''fig_line'', ''fig_survival'', ''fig_timing'', ''fig_lifespan'', ''fig_money_time'',
      ''fig_heatmap'']"
    using none by blast
  have n3: "map fig_var [fig_sun (map add_derived example_csv), fig_facet (map add_derived example_csv),
            fig_scatter (map add_derived example_csv)] = [''fig_sun'', ''fig_facet'', ''fig_scatter'']"
    using full by simp
  have len: "length (charts_before_caption (map add_derived example_csv) False) = 12"
    by (simp add: charts_before_caption_def)
  have ch1: "charts (script (Inr example_csv) True False) =
      charts_before_caption (map add_derived example_csv) False @
           [fig_sun (map add_derived example_csv), fig_facet (map add_derived example_csv),
            fig_scatter (map add_derived example_csv)]"
    unfolding s1 by (simp add: charts_def comp_def)
  have ch2: "charts (script (Inr []) True False) = charts_before_caption (map add_derived []) False"
    unfolding s2 by (simp add: charts_def comp_def)
  have names15: "map fig_var (charts (script (Inr example_csv) True False)) =
     [''fig_status'', ''fig_rounds'', ''fig_cat'', ''fig_fund'', ''fig_box'', ''fig_country'',
      ''fig_line'', ''fig_survival'', ''fig_timing'', ''fig_lifespan'', ''fig_money_time'',
      ''fig_heatmap'', ''fig_sun'', ''fig_facet'', ''fig_scatter'']"
    unfolding ch1 map_append n1 n3 by simp
  have names12: "map fig_var (take 12 (charts (script (Inr example_csv) True False))) =
     [''fig_status'', ''fig_rounds'', ''fig_cat'', ''fig_fund'', ''fig_box'', ''fig_country'',
      ''fig_line'', ''fig_survival'', ''fig_timing'', ''fig_lifespan'', ''fig_money_time'',
      ''fig_heatmap'']"
    unfolding ch1 using len n1 by simp
  have ev: "length (events (script (Inr example_csv) True False)) = 16"
    unfolding s1 using len by simp
  have o1: "outcome (script (Inr example_csv) True False) = Completed" unfolding s1 by simp
  have o2: "outcome (script (Inr []) True False) = Raised ValueError" unfolding s2 by simp
  have names0: "map fig_var (charts (script (Inr []) True False)) =
     [''fig_status'', ''fig_rounds'', ''fig_cat'', ''fig_fund'', ''fig_box'', ''fig_country'',
      ''fig_line'', ''fig_survival'', ''fig_timing'', ''fig_lifespan'', ''fig_money_time'',
      ''fig_heatmap'']"
    unfolding ch2 by (rule n2)
  from full ne have other: "load_data (Inl (OtherError ''ParserError'')) = Inl (OtherError ''ParserError'')"
    "script (Inl (OtherError ''ParserError'')) True False =
     \<lparr>events = [], outcome = Raised (OtherError ''ParserError'')\<rparr>"
    "script (Inl FileNotFoundError) True False =
     \<lparr>events = [StError not_found_message], outcome = Stopped\<rparr>"
    by blast+
  from ne other names12 o1 o2 names15 ev names0 show ?thesis by blast
qed

subsection \<open>The checkboxes\<close>

lemma fig_lifespan_masked:
  "without_lifespan_yaxis (fig_lifespan df show_outliers) =
     \<lparr>fig_var = ''fig_lifespan'', fig_data = Life (df_life df), yaxis_type = None,
      yaxis_autorange = None, yaxis_range = None, xaxis_range = None, range_color = None\<rparr>"
  by (simp add: without_lifespan_yaxis_def fig_lifespan_def px_def Let_def)

lemma charts_before_caption_masked:
  "map without_lifespan_yaxis (charts_before_caption df a) =
   map without_lifespan_yaxis (charts_before_caption df b)"
  by (simp add: charts_before_caption_def fig_lifespan_masked)

lemma charts_script_not_loaded: "charts (script (Inl e) show_raw show_outliers) = []"
  by (cases e) (simp_all add: script_def load_data_def charts_def)

lemma outcome_script_not_loaded:
  "outcome (script (Inl e) show_raw show_outliers) =
     (if e = FileNotFoundError then Stopped else Raised e)"
  by (cases e) (simp_all add: script_def load_data_def)

lemma fig_data_before_caption:
  "map fig_data (charts_before_caption df show_outliers) =
     [Counts (status_counts df), Rows df, Counts (top_cats df), Rows df, Rows df,
      Rows (df_top_countries df), Trend (funding_trend df), Survival (top_30_categories df),
      Timing (df_timing df), Life (df_life df), Life (df_life df), Rows (df_heatmap df)]"
  by (simp add: charts_before_caption_def fig_status_def fig_rounds_def fig_cat_def
      fig_fund_def fig_box_def fig_country_def fig_line_def fig_survival_def fig_timing_def
      fig_lifespan_def fig_money_time_def fig_heatmap_def px_def Let_def)

text \<open>
  Claim C6. An execution is a function of what reading the file gives and of the two
  checkboxes, so equal inputs give equal results. Beyond that: the preview checkbox
  changes no chart; the way the execution ends does not depend on the checkboxes; two
  executions on the same file show the same figures up to the y-axis settings of the
  lifespan box plot, whatever the checkboxes; and the tables the figures are built from
  (among them \<^verbatim>\<open>status_counts\<close>, the survival table, \<^verbatim>\<open>df_timing\<close> and \<^verbatim>\<open>df_life\<close>) are
  those of the dataframe alone.
\<close>

theorem outliers_checkbox_changes_only_lifespan_yaxis:
  "charts (script rd a show_outliers) = charts (script rd b show_outliers) \<and>
   outcome (script rd a c) = outcome (script rd b d) \<and>
   map without_lifespan_yaxis (charts (script rd a c)) =
     map without_lifespan_yaxis (charts (script rd b d)) \<and>
   map fig_data (take 12 (charts (script (Inr rows) a c))) =
     [Counts (status_counts (map add_derived rows)), Rows (map add_derived rows),
      Counts (top_cats (map add_derived rows)), Rows (map add_derived rows),
      Rows (map add_derived rows), Rows (df_top_countries (map add_derived rows)),
      Trend (funding_trend (map add_derived rows)),
      Survival (top_30_categories (map add_derived rows)),
      Timing (df_timing (map add_derived rows)), Life (df_life (map add_derived rows)),
      Life (df_life (map add_derived rows)), Rows (df_heatmap (map add_derived rows))]"
proof (intro conjI)
  show "charts (script rd a show_outliers) = charts (script rd b show_outliers)"
    by (cases rd) (simp_all add: charts_script_not_loaded charts_script_loaded)
  show "outcome (script rd a c) = outcome (script rd b d)"
    by (cases rd) (simp_all add: outcome_script_not_loaded outcome_script_loaded)
  show "map without_lifespan_yaxis (charts (script rd a c)) =
     map without_lifespan_yaxis (charts (script rd b d))"
    by (cases rd)
      (simp_all add: charts_script_not_loaded charts_script_loaded
        charts_before_caption_masked [of _ c d])
  have "take 12 (charts (script (Inr rows) a c)) = charts_before_caption (map add_derived rows) c"
    by (simp add: charts_script_loaded charts_before_caption_def)
  then show "map fig_data (take 12 (charts (script (Inr rows) a c))) =
     [Counts (status_counts (map add_derived rows)), Rows (map add_derived rows),
      Counts (top_cats (map add_derived rows)), Rows (map add_derived rows),
      Rows (map add_derived rows), Rows (df_top_countries (map add_derived rows)),
      Trend (funding_trend (map add_derived rows)),
      Survival (top_30_categories (map add_derived rows)),
      Timing (df_timing (map add_derived rows)), Life (df_life (map add_derived rows)),
      Life (df_life (map add_derived rows)), Rows (df_heatmap (map add_derived rows))]"
    by (simp only: fig_data_before_caption)
qed

theorem outliers_checkbox_changes_only_lifespan_yaxis_witness:
  "map without_lifespan_yaxis (charts (script (Inr example_csv) False True)) =
     map without_lifespan_yaxis (charts (script (Inr example_csv) False False)) \<and>
   outcome (script (Inr example_csv) False True) = outcome (script (Inr example_csv) False False) \<and>
   yaxis_range (charts (script (Inr example_csv) False True) ! 9) = None \<and>
   yaxis_range (charts (script (Inr example_csv) False False) ! 9) = Some (Some 0, Some (15/2))"
proof -
  have on: "yaxis_range (charts (script (Inr example_csv) False True) ! 9) = None"
    by code_simp
  have off: "yaxis_range (charts (script (Inr example_csv) False False) ! 9) =
      Some (Some 0, Some (15/2))"
    by code_simp
  from outliers_checkbox_changes_only_lifespan_yaxis
    [where rd = "Inr example_csv" and a = False and b = False and c = True and d = False]
    on off
  show ?thesis by blast
qed

end
